theory Spec2Isabelle
  imports Main "HOL-Library.Sublist"
begin

section \<open>Strings as the program uses them\<close>

text \<open>
  The program (\<^verbatim>\<open>pods.py\<close>) works on Python \<^verbatim>\<open>str\<close> values. They are modelled as
  \<^typ>\<open>string\<close>; every character the program itself tests for is ASCII.
\<close>

text \<open>
  \<^verbatim>\<open>s.replace(old, new)\<close>: all non-overlapping occurrences of \<^verbatim>\<open>old\<close>, found from left
  to right, are replaced. For the empty \<^verbatim>\<open>old\<close> Python puts \<^verbatim>\<open>new\<close> in front of every
  character and at the end.
\<close>

fun str_replace :: "string \<Rightarrow> string \<Rightarrow> string \<Rightarrow> string" where
  "str_replace [] new s = new @ concat (map (\<lambda>c. c # new) s)"
| "str_replace (x # xs) new [] = []"
| "str_replace (x # xs) new (c # cs) =
     (if prefix (x # xs) (c # cs)
      then new @ str_replace (x # xs) new (drop (length xs) cs)
      else c # str_replace (x # xs) new cs)"

text \<open>\<^verbatim>\<open>s.split('\n')\<close>: never the empty list; \<^verbatim>\<open>''.split('\n') == ['']\<close>.\<close>

fun split_on :: "char \<Rightarrow> string \<Rightarrow> string list" where
  "split_on d [] = [[]]"
| "split_on d (c # cs) =
     (if c = d then [] # split_on d cs
      else (case split_on d cs of
              [] \<Rightarrow> [[c]]
            | l # ls \<Rightarrow> (c # l) # ls))"

text \<open>
  \<^verbatim>\<open>str.isspace\<close> on the code points below 256: tab, line feed, vertical tab, form feed,
  carriage return, the separators \<^verbatim>\<open>0x1c\<close> to \<^verbatim>\<open>0x1f\<close>, space, \<^verbatim>\<open>0x85\<close> and \<^verbatim>\<open>0xa0\<close>.
\<close>

definition is_space :: "char \<Rightarrow> bool" where
  "is_space c \<longleftrightarrow>
     c \<in> set [CHR 0x09, CHR 0x0A, CHR 0x0B, CHR 0x0C, CHR 0x0D,
               CHR 0x1C, CHR 0x1D, CHR 0x1E, CHR 0x1F, CHR 0x20, CHR 0x85, CHR 0xA0]"

text \<open>\<^verbatim>\<open>s.strip()\<close> removes the white space at both ends.\<close>

definition strip :: "string \<Rightarrow> string" where
  "strip s = rev (dropWhile is_space (rev (dropWhile is_space s)))"

text \<open>\<^verbatim>\<open>s.split()\<close>: the maximal runs of characters that are not white space.\<close>

fun split_ws :: "string \<Rightarrow> string \<Rightarrow> string list" where
  "split_ws acc [] = (if acc = [] then [] else [rev acc])"
| "split_ws acc (c # cs) =
     (if is_space c
      then (if acc = [] then split_ws [] cs else rev acc # split_ws [] cs)
      else split_ws (c # acc) cs)"

definition endswith :: "string \<Rightarrow> string \<Rightarrow> bool" where
  "endswith s e \<longleftrightarrow> suffix e s"

definition startswith :: "string \<Rightarrow> string \<Rightarrow> bool" where
  "startswith s p \<longleftrightarrow> prefix p s"

text \<open>\<^verbatim>\<open>xs.index(x)\<close>: the first position of \<^verbatim>\<open>x\<close>; \<^verbatim>\<open>None\<close> stands for the \<^verbatim>\<open>ValueError\<close>.\<close>

fun list_index :: "'a list \<Rightarrow> 'a \<Rightarrow> nat option" where
  "list_index [] x = None"
| "list_index (y # ys) x =
     (if y = x then Some 0 else map_option Suc (list_index ys x))"

section \<open>The block pattern of \<^verbatim>\<open>reason_llm\<close>\<close>

text \<open>
  \<^verbatim>\<open>re.sub(r'--- [A-Z_]+ ---\n\{[a-z_]+\}\n--- END [A-Z_]+ ---', '', prompt)\<close>.
  The pattern is a sequence of literals and of three character classes under \<^verbatim>\<open>+\<close>. The
  literal that follows each class starts with a character outside the class (a space or
  a closing brace), so the greedy run of the class is the only length that can match and
  the backtracking matcher decides each start position in one pass: \<open>match_block s\<close> is
  the rest of \<open>s\<close> after a match that starts at its first character.
\<close>

definition lit :: "string \<Rightarrow> string \<Rightarrow> string option" where
  "lit p s = (if prefix p s then Some (drop (length p) s) else None)"

definition many1 :: "(char \<Rightarrow> bool) \<Rightarrow> string \<Rightarrow> string option" where
  "many1 P s = (if takeWhile P s = [] then None else Some (dropWhile P s))"

definition upper_us :: "char \<Rightarrow> bool" where
  "upper_us c \<longleftrightarrow> c \<in> set ''ABCDEFGHIJKLMNOPQRSTUVWXYZ_''"

definition lower_us :: "char \<Rightarrow> bool" where
  "lower_us c \<longleftrightarrow> c \<in> set ''abcdefghijklmnopqrstuvwxyz_''"

definition match_block :: "string \<Rightarrow> string option" where
  "match_block s =
     Option.bind (lit ''--- '' s) (\<lambda>s1.
     Option.bind (many1 upper_us s1) (\<lambda>s2.
     Option.bind (lit '' ---\<newline>{'' s2) (\<lambda>s3.
     Option.bind (many1 lower_us s3) (\<lambda>s4.
     Option.bind (lit ''}\<newline>--- END '' s4) (\<lambda>s5.
     Option.bind (many1 upper_us s5) (\<lambda>s6.
     lit '' ---'' s6))))))"

lemma lit_shorter: "lit p s = Some r \<Longrightarrow> length r \<le> length s"
  by (auto simp: lit_def split: if_splits)

lemma many1_shorter: "many1 P s = Some r \<Longrightarrow> length r < length s"
proof -
  assume "many1 P s = Some r"
  then have t: "takeWhile P s \<noteq> []" and r: "r = dropWhile P s"
    by (auto simp: many1_def split: if_splits)
  have "length s = length (takeWhile P s) + length (dropWhile P s)"
    by (metis length_append takeWhile_dropWhile_id)
  with t r show ?thesis by simp
qed

lemma match_block_shorter: "match_block s = Some r \<Longrightarrow> length r < length s"
  unfolding match_block_def
  by (auto simp: bind_eq_Some_conv dest!: lit_shorter many1_shorter)

text \<open>
  \<^verbatim>\<open>re.sub\<close> with the empty replacement: scan from the left; where the pattern matches,
  drop the match and go on behind it; elsewhere keep the character. The pattern never
  matches the empty string.
\<close>

function re_sub_block :: "string \<Rightarrow> string" where
  "re_sub_block [] = []"
| "re_sub_block (c # cs) =
     (case match_block (c # cs) of
        Some rest \<Rightarrow> re_sub_block rest
      | None \<Rightarrow> c # re_sub_block cs)"
  by pat_completeness auto
termination
  by (relation "measure length") (auto dest: match_block_shorter)

section \<open>Prompt assembly (\<^verbatim>\<open>reason_llm\<close>)\<close>

text \<open>
  A context package is a Python \<^verbatim>\<open>dict\<close> from \<^verbatim>\<open>str\<close> to \<^verbatim>\<open>str\<close>: an association list in
  insertion order. \<open>dict_set\<close> is \<^verbatim>\<open>d[k] = v\<close>: a new key goes to the end, an old key keeps
  its place.
\<close>

type_synonym context_package = "(string \<times> string) list"

fun dict_set :: "context_package \<Rightarrow> string \<Rightarrow> string \<Rightarrow> context_package" where
  "dict_set [] k v = [(k, v)]"
| "dict_set ((k', v') # d) k v =
     (if k' = k then (k, v) # d else (k', v') # dict_set d k v)"

definition placeholder :: "string \<Rightarrow> string" where
  "placeholder key = ''{'' @ key @ ''}''"

text \<open>The loop \<^verbatim>\<open>for key, value in context_package.items()\<close>.\<close>

fun substitute :: "context_package \<Rightarrow> string \<Rightarrow> string" where
  "substitute [] prompt = prompt"
| "substitute ((key, val) # rest) prompt =
     substitute rest (str_replace (placeholder key) val prompt)"

text \<open>
  \<open>reason_llm_prompt\<close> is the argument that \<^verbatim>\<open>reason_llm\<close> passes to \<^verbatim>\<open>call_llm\<close>: the
  assembled prompt.
\<close>

definition reason_llm_prompt :: "context_package \<Rightarrow> string \<Rightarrow> string" where
  "reason_llm_prompt context_package prompt_template =
     (case map_of context_package ''kubectl_get_pod_output'' of
        Some v \<Rightarrow> str_replace ''{kubectl_get_pod_output}'' v prompt_template
      | None \<Rightarrow> re_sub_block (substitute context_package prompt_template))"

section \<open>The outside world\<close>

text \<open>
  The program talks to the cluster through a shell, to the model through HTTP, reads
  manifest files and sleeps. What it did so far is a trace of events; the outside world
  is any function of that trace, so a scripted executor, a cluster that changes while
  the program sleeps and a failing network are all instances of \<open>world\<close>.
\<close>

datatype event =
    Run string bool
  | Sleep nat
  | Post string nat
  | Open string
  | Input
  | Clear

type_synonym trace = "event list"

record completed_process =
  returncode :: int
  stdout :: string
  stderr :: string

datatype json =
    JNull
  | JBool bool
  | JNum int
  | JStr string
  | JArr "json list"
  | JObj "(string \<times> json) list"

text \<open>
  What \<^verbatim>\<open>requests.post\<close> does: it raises a \<^verbatim>\<open>RequestException\<close> (connection error,
  timeout) with a message, or returns a response with a status code, the message that
  \<^verbatim>\<open>raise_for_status\<close> would raise with, and a body that \<^verbatim>\<open>response.json()\<close> decodes
  or rejects with a message.
\<close>

datatype http_outcome =
    TransportError string
  | Response nat string "string + json"

record world =
  shell :: "trace \<Rightarrow> string \<Rightarrow> completed_process"
  http :: "trace \<Rightarrow> string \<Rightarrow> nat \<Rightarrow> http_outcome"
  files :: "trace \<Rightarrow> string \<Rightarrow> string option"

datatype error =
    CalledProcessError int string
  | KeyError
  | IndexError
  | TypeError
  | AttributeError
  | OSError

text \<open>
  A computation of the program takes the trace and returns a value or the exception it
  raised, with the extended trace.
\<close>

type_synonym 'a io = "trace \<Rightarrow> (error + 'a) \<times> trace"

definition ret :: "'a \<Rightarrow> 'a io" where
  "ret a tr = (Inr a, tr)"

definition seq :: "'a io \<Rightarrow> ('a \<Rightarrow> 'b io) \<Rightarrow> 'b io" where
  "seq m f tr = (case m tr of (Inl e, tr') \<Rightarrow> (Inl e, tr') | (Inr a, tr') \<Rightarrow> f a tr')"

definition sleep :: "nat \<Rightarrow> unit io" where
  "sleep n tr = (Inr (), tr @ [Sleep n])"

section \<open>\<^verbatim>\<open>run_command\<close>\<close>

text \<open>
  \<^verbatim>\<open>subprocess.run(..., check=check)\<close> raises \<^verbatim>\<open>CalledProcessError\<close> exactly when \<^verbatim>\<open>check\<close>
  is true and the exit code is not zero; otherwise it returns the completed process.
\<close>

definition subprocess_run :: "completed_process \<Rightarrow> bool \<Rightarrow> error + completed_process" where
  "subprocess_run p check =
     (if check \<and> returncode p \<noteq> 0
      then Inl (CalledProcessError (returncode p) (stderr p))
      else Inr p)"

definition run_command :: "world \<Rightarrow> string \<Rightarrow> bool \<Rightarrow> string io" where
  "run_command w command check tr =
     (let tr' = tr @ [Run command check] in
      case subprocess_run (shell w tr command) check of
        Inr result \<Rightarrow> (Inr (strip (stdout result)), tr')
      | Inl (CalledProcessError rc err) \<Rightarrow>
          (if check then (Inl (CalledProcessError rc err), tr')
           else (Inr (strip err), tr'))
      | Inl e \<Rightarrow> (Inl e, tr'))"

section \<open>\<^verbatim>\<open>call_llm\<close>\<close>

definition bind_err :: "error + 'a \<Rightarrow> ('a \<Rightarrow> error + 'b) \<Rightarrow> error + 'b" where
  "bind_err r f = (case r of Inl e \<Rightarrow> Inl e | Inr a \<Rightarrow> f a)"

text \<open>\<^verbatim>\<open>v[key]\<close> for a string key, \<^verbatim>\<open>v[0]\<close> and \<^verbatim>\<open>v.get(key, default)\<close> on a decoded value.\<close>

fun getitem_key :: "json \<Rightarrow> string \<Rightarrow> error + json" where
  "getitem_key (JObj kvs) key =
     (case map_of kvs key of None \<Rightarrow> Inl KeyError | Some v \<Rightarrow> Inr v)"
| "getitem_key _ key = Inl TypeError"

fun getitem_0 :: "json \<Rightarrow> error + json" where
  "getitem_0 (JArr []) = Inl IndexError"
| "getitem_0 (JArr (v # vs)) = Inr v"
| "getitem_0 (JStr []) = Inl IndexError"
| "getitem_0 (JStr (c # cs)) = Inr (JStr [c])"
| "getitem_0 (JObj kvs) = Inl KeyError"
| "getitem_0 _ = Inl TypeError"

fun dict_get :: "json \<Rightarrow> string \<Rightarrow> json \<Rightarrow> error + json" where
  "dict_get (JObj kvs) key dflt =
     (case map_of kvs key of None \<Rightarrow> Inr dflt | Some v \<Rightarrow> Inr v)"
| "dict_get _ key dflt = Inl AttributeError"

text \<open>Lines 50 and 51: \<^verbatim>\<open>response_data["choices"][0].get("message", {}).get("content", ...)\<close>.\<close>

definition response_content :: "json \<Rightarrow> error + json" where
  "response_content response_data =
     bind_err (getitem_key response_data ''choices'') (\<lambda>choices.
     bind_err (getitem_0 choices) (\<lambda>choice.
     bind_err (dict_get choice ''message'' (JObj [])) (\<lambda>message.
     dict_get message ''content''
       (JStr (''Error: '' @ [CHR 0x27] @ ''content'' @ [CHR 0x27] @ '' key not found in message.'')))))"

text \<open>
  The \<^verbatim>\<open>except\<close> clause catches \<^verbatim>\<open>requests.exceptions.RequestException\<close>: what \<^verbatim>\<open>post\<close>
  raises, the \<^verbatim>\<open>HTTPError\<close> of \<^verbatim>\<open>raise_for_status\<close> (status 400 to 599) and the decoding
  error of \<^verbatim>\<open>response.json()\<close>. Nothing else is caught.
\<close>

definition call_llm :: "world \<Rightarrow> string \<Rightarrow> nat \<Rightarrow> json io" where
  "call_llm w prompt max_tokens tr =
     (let tr' = tr @ [Post prompt max_tokens] in
      case http w tr prompt max_tokens of
        TransportError msg \<Rightarrow> (Inr (JStr (''API Request Error: '' @ msg)), tr')
      | Response status msg body \<Rightarrow>
          if 400 \<le> status \<and> status < 600
          then (Inr (JStr (''API Request Error: '' @ msg)), tr')
          else (case body of
                  Inl dmsg \<Rightarrow> (Inr (JStr (''API Request Error: '' @ dmsg)), tr')
                | Inr response_data \<Rightarrow> (response_content response_data, tr')))"

definition reason_llm :: "world \<Rightarrow> context_package \<Rightarrow> string \<Rightarrow> json io" where
  "reason_llm w context_package prompt_template =
     call_llm w (reason_llm_prompt context_package prompt_template) 4096"

section \<open>\<^verbatim>\<open>perceive_context\<close>\<close>

text \<open>The loop of lines 82 to 85, with its \<^verbatim>\<open>break\<close>.\<close>

fun scan_init_lines :: "string list \<Rightarrow> string" where
  "scan_init_lines [] = ''''"
| "scan_init_lines (line # rest) =
     (if endswith (strip line) '':''
      then str_replace '':'' '''' (strip line)
      else scan_init_lines rest)"

text \<open>Lines 78 to 87: the name stays empty when the section header is no line of the text.\<close>

definition init_container_name :: "string \<Rightarrow> string" where
  "init_container_name pod_description =
     (let pod_desc_lines = split_on CHR 0x0A pod_description in
      case list_index pod_desc_lines ''Init Containers:'' of
        None \<Rightarrow> ''''
      | Some init_section_index \<Rightarrow>
          scan_init_lines (drop (init_section_index + 1) pod_desc_lines))"

text \<open>\<^verbatim>\<open>context.get(key, default)\<close> on a context package.\<close>

definition context_get :: "context_package \<Rightarrow> string \<Rightarrow> string \<Rightarrow> string" where
  "context_get context key dflt = (case map_of context key of None \<Rightarrow> dflt | Some v \<Rightarrow> v)"

definition perceive_context :: "world \<Rightarrow> string \<Rightarrow> string \<Rightarrow> context_package io" where
  "perceive_context w pod_name classification =
     seq (run_command w (''kubectl describe pod '' @ pod_name) False) (\<lambda>desc.
     let context = dict_set [] ''pod_description'' desc in
     if classification = ''SchedulingFailure'' then
       seq (run_command w ''kubectl describe nodes'' False) (\<lambda>out.
       ret (dict_set context ''node_descriptions'' out))
     else if classification = ''ImagePullFailure'' then
       ret context
     else if classification = ''ConfigurationFailure'' then
       seq (run_command w ''kubectl get configmaps'' False) (\<lambda>out.
       ret (dict_set context ''configmaps_in_namespace'' out))
     else if classification = ''InitializationFailure'' then
       (let name = init_container_name (context_get context ''pod_description'' '''') in
        if name \<noteq> '''' then
          seq (run_command w
                 (''kubectl logs '' @ pod_name @ '' -c '' @ name @ '' --previous'') False) (\<lambda>out.
          ret (dict_set context ''init_container_logs'' out))
        else ret context)
     else if classification = ''RuntimeCrash'' then
       seq (run_command w (''kubectl logs '' @ pod_name @ '' --previous'') False) (\<lambda>out.
       ret (dict_set context ''container_logs'' out))
     else if classification = ''HealthCheckFailure'' then
       (let app_label =
              str_replace ''bad-readiness-'' ''bad-readiness'' (str_replace ''-pod'' '''' pod_name) in
        seq (run_command w (''kubectl get endpoints -l app='' @ app_label) False) (\<lambda>out.
        ret (dict_set context ''service_endpoints'' out)))
     else ret context)"

section \<open>\<^verbatim>\<open>get_worker_node\<close> and \<^verbatim>\<open>get_pod_name\<close>\<close>

text \<open>
  The loop of lines 129 to 134. A line that is not blank has at least one part, so
  \<^verbatim>\<open>parts[0]\<close> and \<^verbatim>\<open>parts[1]\<close> are read only where they exist.
\<close>

fun first_worker :: "string list \<Rightarrow> string option" where
  "first_worker [] = None"
| "first_worker (line # rest) =
     (if strip line = [] then first_worker rest
      else (case split_ws [] line of
              [] \<Rightarrow> first_worker rest
            | [name] \<Rightarrow> Some name
            | name # role # _ \<Rightarrow> if role = ''<none>'' then Some name else first_worker rest))"

definition get_worker_node :: "world \<Rightarrow> string option io" where
  "get_worker_node w =
     seq (run_command w
            (''kubectl get nodes --no-headers -o custom-columns=NAME:.metadata.name,'' @
             ''ROLE:.metadata.labels.node-role'' @ [CHR 0x5C] @ ''.kubernetes'' @ [CHR 0x5C] @
             ''.io/master'') True) (\<lambda>nodes_output.
     ret (first_worker (split_on CHR 0x0A (strip nodes_output))))"

text \<open>The inner loop of \<^verbatim>\<open>get_pod_name\<close> (lines 220 to 223).\<close>

fun first_pod :: "string \<Rightarrow> string list \<Rightarrow> string option" where
  "first_pod pattern [] = None"
| "first_pod pattern (pod_line # rest) =
     (let pod_name = str_replace ''pod/'' '''' pod_line in
      if startswith pod_name pattern then Some pod_name else first_pod pattern rest)"

text \<open>The outer loop \<^verbatim>\<open>for _ in range(5)\<close>, by the number of attempts that are left.\<close>

fun poll_pods :: "world \<Rightarrow> string \<Rightarrow> nat \<Rightarrow> string option io" where
  "poll_pods w pattern 0 = ret None"
| "poll_pods w pattern (Suc n) =
     seq (run_command w ''kubectl get pods -o name'' False) (\<lambda>pods_output.
     case first_pod pattern (split_on CHR 0x0A pods_output) of
       Some pod_name \<Rightarrow> ret (Some pod_name)
     | None \<Rightarrow> seq (sleep 2) (\<lambda>_. poll_pods w pattern n))"

definition get_pod_name :: "world \<Rightarrow> string \<Rightarrow> string option io" where
  "get_pod_name w pattern = seq (sleep 5) (\<lambda>_. poll_pods w pattern 5)"

section \<open>The scenarios and \<^verbatim>\<open>main\<close>\<close>

record scenario =
  description :: string
  manifest_filename :: string
  pre_run_command :: "string option"
  post_run_command :: "string option"
  pod_name_pattern :: string
  cleanup_kind :: string
  cleanup_name :: string

definition SCENARIOS :: "(string \<times> scenario) list" where
  "SCENARIOS =
   [(''1_insufficient_cpu'',
     \<lparr>description = ''A pod requests more CPU than any node can provide, causing a '' @ [CHR 0x27] @ ''Pending'' @ [CHR 0x27] @ '' state.'',
      manifest_filename = ''1_insufficient_cpu.yaml'',
      pre_run_command = None,
      post_run_command = None,
      pod_name_pattern = ''high-cpu-app-'',
      cleanup_kind = ''deployment'',
      cleanup_name = ''high-cpu-app''\<rparr>),
    (''2_taint_toleration'',
     \<lparr>description = ''A pod cannot be scheduled because it lacks a toleration for a taint applied to all available nodes.'',
      manifest_filename = ''2_taint_toleration.yaml'',
      pre_run_command = Some (''kubectl taint nodes {node_name} special-workload=true:NoSchedule''),
      post_run_command = Some (''kubectl taint nodes {node_name} special-workload=true:NoSchedule-''),
      pod_name_pattern = ''app-needs-toleration'',
      cleanup_kind = ''pod'',
      cleanup_name = ''app-needs-toleration''\<rparr>),
    (''3_node_selector'',
     \<lparr>description = ''A pod cannot be scheduled because its nodeSelector specifies a label that does not exist on any node.'',
      manifest_filename = ''3_node_selector.yaml'',
      pre_run_command = None,
      post_run_command = None,
      pod_name_pattern = ''app-needs-label'',
      cleanup_kind = ''pod'',
      cleanup_name = ''app-needs-label''\<rparr>),
    (''4_invalid_image_name'',
     \<lparr>description = ''A pod enters ImagePullBackOff due to a typo in the container image name.'',
      manifest_filename = ''4_invalid_image_name.yaml'',
      pre_run_command = None,
      post_run_command = None,
      pod_name_pattern = ''bad-image-pod'',
      cleanup_kind = ''pod'',
      cleanup_name = ''bad-image-pod''\<rparr>),
    (''6_missing_configmap'',
     \<lparr>description = ''A pod fails with CreateContainerConfigError because it references a ConfigMap that does not exist.'',
      manifest_filename = ''6_missing_configmap.yaml'',
      pre_run_command = None,
      post_run_command = None,
      pod_name_pattern = ''app-needs-config'',
      cleanup_kind = ''pod'',
      cleanup_name = ''app-needs-config''\<rparr>),
    (''7_failing_init_container'',
     \<lparr>description = ''A pod is stuck in Init:CrashLoopBackOff because its initContainer fails repeatedly.'',
      manifest_filename = ''7_failing_init_container.yaml'',
      pre_run_command = None,
      post_run_command = None,
      pod_name_pattern = ''app-with-failing-init'',
      cleanup_kind = ''pod'',
      cleanup_name = ''app-with-failing-init''\<rparr>),
    (''8_app_logic_error'',
     \<lparr>description = ''A pod enters CrashLoopBackOff because the application code exits with an error.'',
      manifest_filename = ''8_app_logic_error.yaml'',
      pre_run_command = None,
      post_run_command = None,
      pod_name_pattern = ''buggy-app-pod'',
      cleanup_kind = ''pod'',
      cleanup_name = ''buggy-app-pod''\<rparr>),
    (''9_oomkilled'',
     \<lparr>description = ''A pod is terminated with OOMKilled because it consumes more memory than its limit.'',
      manifest_filename = ''9_oomkilled.yaml'',
      pre_run_command = None,
      post_run_command = None,
      pod_name_pattern = ''oom-pod'',
      cleanup_kind = ''pod'',
      cleanup_name = ''oom-pod''\<rparr>),
    (''10_bad_liveness_probe'',
     \<lparr>description = ''A healthy pod enters CrashLoopBackOff because it is repeatedly killed by a misconfigured liveness probe.'',
      manifest_filename = ''10_bad_liveness_probe.yaml'',
      pre_run_command = None,
      post_run_command = None,
      pod_name_pattern = ''bad-liveness-pod'',
      cleanup_kind = ''pod'',
      cleanup_name = ''bad-liveness-pod''\<rparr>),
    (''11_bad_readiness_probe'',
     \<lparr>description = ''A running pod does not receive traffic because its readiness probe is failing.'',
      manifest_filename = ''11_bad_readiness_probe.yaml'',
      pre_run_command = None,
      post_run_command = None,
      pod_name_pattern = ''bad-readiness-pod'',
      cleanup_kind = ''pod'',
      cleanup_name = ''bad-readiness-pod''\<rparr>)]"

definition classification_prompt :: string where
  "classification_prompt =
     ''\<newline>'' @
     ''You are an expert Kubernetes SRE. Classify the failure of the pod below into ONE of these categories:\<newline>'' @
     ''SchedulingFailure, ImagePullFailure, ConfigurationFailure, InitializationFailure, RuntimeCrash, HealthCheckFailure\<newline>'' @
     ''--- POD DATA ---\<newline>'' @
     ''{kubectl_get_pod_output}\<newline>'' @
     ''--- END POD DATA ---\<newline>'' @
     ''Respond with ONLY the category name.\<newline>''"

definition diagnosis_prompt_template :: string where
  "diagnosis_prompt_template =
     ''\<newline>'' @
     ''You are an expert Kubernetes SRE providing a detailed root cause analysis and remediation plan.\<newline>'' @
     ''Analyze the following diagnostic data to determine the precise root cause of the failure.\<newline>'' @
     ''\<newline>'' @
     ''### DIAGNOSTIC CONTEXT PACKAGE START ###\<newline>'' @
     ''--- POD_DESCRIPTION ---\<newline>'' @
     ''{pod_description}\<newline>'' @
     ''--- END POD_DESCRIPTION ---\<newline>'' @
     ''\<newline>'' @
     ''--- NODE_DESCRIPTIONS ---\<newline>'' @
     ''{node_descriptions}\<newline>'' @
     ''--- END NODE_DESCRIPTIONS ---\<newline>'' @
     ''\<newline>'' @
     ''--- CONFIGMAPS_IN_NAMESPACE ---\<newline>'' @
     ''{configmaps_in_namespace}\<newline>'' @
     ''--- END CONFIGMAPS_IN_NAMESPACE ---\<newline>'' @
     ''\<newline>'' @
     ''--- INIT_CONTAINER_LOGS ---\<newline>'' @
     ''{init_container_logs}\<newline>'' @
     ''--- END INIT_CONTAINER_LOGS ---\<newline>'' @
     ''\<newline>'' @
     ''--- CONTAINER_LOGS ---\<newline>'' @
     ''{container_logs}\<newline>'' @
     ''--- END CONTAINER_LOGS ---\<newline>'' @
     ''\<newline>'' @
     ''--- SERVICE_ENDPOINTS ---\<newline>'' @
     ''{service_endpoints}\<newline>'' @
     ''--- END SERVICE_ENDPOINTS ---\<newline>'' @
     ''### DIAGNOSTIC CONTEXT PACKAGE END ###\<newline>'' @
     ''\<newline>'' @
     ''Provide:\<newline>'' @
     ''1.  **Root Cause:** A concise explanation of the failure.\<newline>'' @
     ''2.  **Detailed Analysis:** An in-depth explanation of the evidence.\<newline>'' @
     ''3.  **Remediation Plan:** Step-by-step instructions with corrected YAML or commands.\<newline>''"

definition SCENARIO_FILES_DIR :: string where
  "SCENARIO_FILES_DIR = ''scenarios''"

text \<open>
  \<^verbatim>\<open>template.format(node_name=node)\<close> for the templates of \<open>SCENARIOS\<close>, whose only
  field is \<^verbatim>\<open>{node_name}\<close>; \<^verbatim>\<open>None\<close> is formatted as the text \<^verbatim>\<open>None\<close>.
\<close>

definition format_node_name :: "string \<Rightarrow> string option \<Rightarrow> string" where
  "format_node_name template node =
     str_replace ''{node_name}'' (case node of None \<Rightarrow> ''None'' | Some n \<Rightarrow> n) template"

text \<open>\<^verbatim>\<open>os.path.join(a, b)\<close> for a relative directory \<^verbatim>\<open>a\<close> without a trailing slash.\<close>

definition path_join :: "string \<Rightarrow> string \<Rightarrow> string" where
  "path_join a b = (if startswith b ''/'' then b else a @ ''/'' @ b)"

text \<open>\<^verbatim>\<open>open(path).read()\<close>: the content, or an \<^verbatim>\<open>OSError\<close> when the file cannot be read.\<close>

definition open_read :: "world \<Rightarrow> string \<Rightarrow> string io" where
  "open_read w path tr =
     (case files w tr path of
        None \<Rightarrow> (Inl OSError, tr @ [Open path])
      | Some content \<Rightarrow> (Inr content, tr @ [Open path]))"

definition input :: "unit io" where
  "input tr = (Inr (), tr @ [Input])"

definition clear :: "unit io" where
  "clear tr = (Inr (), tr @ [Clear])"

text \<open>\<^verbatim>\<open>not x\<close> for \<^verbatim>\<open>x\<close> that is \<^verbatim>\<open>None\<close> or a \<^verbatim>\<open>str\<close>.\<close>

definition falsy :: "string option \<Rightarrow> bool" where
  "falsy x \<longleftrightarrow> x = None \<or> x = Some ''''"

text \<open>\<^verbatim>\<open>r.strip()\<close> on what \<^verbatim>\<open>reason_llm\<close> returned: only a \<^verbatim>\<open>str\<close> has the method.\<close>

fun py_strip :: "json \<Rightarrow> error + string" where
  "py_strip (JStr s) = Inr (strip s)"
| "py_strip _ = Inl AttributeError"

text \<open>
  Lines 261 to 317, the branch taken when a pod was identified. The display calls
  (\<^verbatim>\<open>display_panel\<close>, \<^verbatim>\<open>console.print\<close>, \<^verbatim>\<open>act_display_results\<close>) only render text and
  leave no event.
\<close>

definition diagnose :: "world \<Rightarrow> string \<Rightarrow> unit io" where
  "diagnose w pod_name =
     seq (run_command w (''kubectl get pod '' @ pod_name) True) (\<lambda>get_pod_output.
     seq (reason_llm w [(''kubectl_get_pod_output'', get_pod_output)] classification_prompt) (\<lambda>r.
     seq (\<lambda>tr. (py_strip r, tr)) (\<lambda>classification.
     seq (perceive_context w pod_name classification) (\<lambda>full_context.
     seq (reason_llm w full_context diagnosis_prompt_template) (\<lambda>diagnosis_result.
     ret ())))))"

text \<open>Lines 319 to 329: the cleanup at the end of the loop body.\<close>

definition delete_command :: "scenario \<Rightarrow> string" where
  "delete_command scenario_info =
     ''kubectl delete '' @ cleanup_kind scenario_info @ '' '' @ cleanup_name scenario_info @
     '' --grace-period=0 --force''"

definition cleanup :: "world \<Rightarrow> string option \<Rightarrow> scenario \<Rightarrow> unit io" where
  "cleanup w node_for_taint scenario_info =
     seq (run_command w (delete_command scenario_info) False) (\<lambda>_.
     seq (case post_run_command scenario_info of
            None \<Rightarrow> ret ()
          | Some c \<Rightarrow> seq (run_command w (format_node_name c node_for_taint) False) (\<lambda>_. ret ()))
         (\<lambda>_.
     seq (sleep 5) (\<lambda>_.
     seq input (\<lambda>_.
     clear))))"

text \<open>The body of the loop over \<open>SCENARIOS\<close> (lines 235 to 329).\<close>

definition run_scenario :: "world \<Rightarrow> string option \<Rightarrow> string \<times> scenario \<Rightarrow> unit io" where
  "run_scenario w node_for_taint sc =
     (let scenario_id = fst sc; scenario_info = snd sc in
      if sublist ''taint'' scenario_id \<and> falsy node_for_taint then ret ()
      else
        seq (case pre_run_command scenario_info of
               None \<Rightarrow> ret ()
             | Some c \<Rightarrow> seq (run_command w (format_node_name c node_for_taint) True) (\<lambda>_. ret ()))
            (\<lambda>_.
        let manifest_path = path_join SCENARIO_FILES_DIR (manifest_filename scenario_info) in
        seq (open_read w manifest_path) (\<lambda>manifest_content.
        seq (run_command w (''kubectl apply -f '' @ manifest_path) True) (\<lambda>_.
        seq (sleep 15) (\<lambda>_.
        seq (get_pod_name w (pod_name_pattern scenario_info)) (\<lambda>pod_name.
        seq (if falsy pod_name then ret () else diagnose w (the pod_name)) (\<lambda>_.
        cleanup w node_for_taint scenario_info)))))))"

fun run_scenarios :: "world \<Rightarrow> string option \<Rightarrow> (string \<times> scenario) list \<Rightarrow> unit io" where
  "run_scenarios w node_for_taint [] = ret ()"
| "run_scenarios w node_for_taint (sc # rest) =
     seq (run_scenario w node_for_taint sc) (\<lambda>_. run_scenarios w node_for_taint rest)"

definition main :: "world \<Rightarrow> unit io" where
  "main w = seq (get_worker_node w) (\<lambda>node_for_taint. run_scenarios w node_for_taint SCENARIOS)"

section \<open>Notions of the specification\<close>


text \<open>
  The pods of one answer to \<^verbatim>\<open>kubectl get pods -o name\<close> whose names, without \<^verbatim>\<open>pod/\<close>,
  start with the pattern, in the order of the lines.
\<close>

definition matching_pods :: "string \<Rightarrow> string \<Rightarrow> string list" where
  "matching_pods pattern pods_output =
     filter (\<lambda>name. prefix pattern name)
       (map (str_replace ''pod/'' '''') (split_on CHR 0x0A pods_output))"

text \<open>
  The trace of \<^verbatim>\<open>get_pod_name\<close> after \<open>k\<close> polls without a match, from the trace \<open>tr\<close>
  at its call, and what the executor answers to the next poll.
\<close>

definition poll_trace :: "trace \<Rightarrow> nat \<Rightarrow> trace" where
  "poll_trace tr k =
     tr @ [Sleep 5] @ concat (replicate k [Run ''kubectl get pods -o name'' False, Sleep 2])"

definition poll_output :: "world \<Rightarrow> trace \<Rightarrow> nat \<Rightarrow> string" where
  "poll_output w tr k = strip (stdout (shell w (poll_trace tr k) ''kubectl get pods -o name''))"

section \<open>Example worlds\<close>

text \<open>
  A cluster where every command exits with status 1, prints nothing and writes a message
  to standard error, and a model endpoint that answers 200 with the JSON object \<^verbatim>\<open>{}\<close>.
\<close>

definition failing_world :: world where
  "failing_world =
     \<lparr>shell = (\<lambda>tr c. \<lparr>returncode = 1, stdout = '''', stderr = ''Error from server (NotFound)''\<rparr>),
      http = (\<lambda>tr p n. Response 200 '''' (Inr (JObj []))),
      files = (\<lambda>tr p. None)\<rparr>"


text \<open>
  A scripted executor: the first \<open>n\<close> commands list no pod of the deployment
  \<^verbatim>\<open>high-cpu-app\<close>, the later ones do.
\<close>

fun is_run :: "event \<Rightarrow> bool" where
  "is_run (Run c b) = True"
| "is_run _ = False"

definition scripted_world :: "nat \<Rightarrow> world" where
  "scripted_world n =
     \<lparr>shell = (\<lambda>tr c.
         if length (filter is_run tr) < n
         then \<lparr>returncode = 0, stdout = ''pod/other-1\<newline>pod/db-0\<newline>'', stderr = ''''\<rparr>
         else \<lparr>returncode = 0, stdout = ''pod/other-1\<newline>pod/high-cpu-app-7f9\<newline>'',
               stderr = ''''\<rparr>),
      http = (\<lambda>tr p n. TransportError ''timeout''),
      files = (\<lambda>tr p. Some '''')\<rparr>"

section \<open>Facts about the string operations\<close>

lemma str_replace_skip:
  "\<not> prefix (x # xs) (c # cs) \<Longrightarrow>
     str_replace (x # xs) new (c # cs) = c # str_replace (x # xs) new cs"
  by (simp only: str_replace.simps if_False)

lemma str_replace_hit:
  "str_replace (x # xs) new ((x # xs) @ r) = new @ str_replace (x # xs) new r"
  by simp

lemma str_replace_absent:
  "x \<notin> set s \<Longrightarrow> str_replace (x # xs) new s = s"
  by (induction s) (auto simp: prefix_def)

lemma str_replace_no_occurrence:
  "\<not> sublist (x # xs) s \<Longrightarrow> str_replace (x # xs) new s = s"
proof (induction s)
  case Nil
  then show ?case by simp
next
  case (Cons c cs)
  from Cons.prems have np: "\<not> prefix (x # xs) (c # cs)" and ns: "\<not> sublist (x # xs) cs"
    by (auto simp: sublist_Cons_right)
  show ?case using str_replace_skip[OF np] Cons.IH[OF ns] by simp
qed

text \<open>
  An occurrence of \<open>x # xs\<close> that starts inside \<open>a\<close> and runs into the next occurrence
  shows \<open>x\<close> a second time, inside \<open>xs\<close>.
\<close>

lemma prefix_overlap_head:
  assumes p: "prefix (x # xs) (a @ (x # xs) @ b)"
    and np: "\<not> prefix (x # xs) a"
    and ne: "a \<noteq> []"
  shows "x \<in> set xs"
proof -
  have la: "length a < length (x # xs)"
  proof (rule ccontr)
    assume "\<not> length a < length (x # xs)"
    then have "length (x # xs) \<le> length a" by simp
    moreover have "prefix a (a @ (x # xs) @ b)" by simp
    ultimately have "prefix (x # xs) a" using p prefix_length_prefix by blast
    with np show False by simp
  qed
  from p have eq: "take (length (x # xs)) (a @ (x # xs) @ b) = x # xs"
    by (metis append_eq_conv_conj prefix_def)
  have "(x # xs) ! length a = (a @ (x # xs) @ b) ! length a"
    using la eq by (metis nth_take)
  also have "\<dots> = x" by (simp add: nth_append)
  finally have "(x # xs) ! length a = x" .
  moreover from ne have "0 < length a" by simp
  ultimately show ?thesis using la
    by (cases "length a") (auto simp: set_conv_nth)
qed

text \<open>
  When the first character of \<open>old\<close> does not come back inside it, occurrences of \<open>old\<close>
  cannot overlap and \<^verbatim>\<open>replace\<close> works on both sides of an occurrence independently.
\<close>

lemma str_replace_unbordered:
  assumes x: "x \<notin> set xs"
  shows "str_replace (x # xs) new (a @ (x # xs) @ b)
         = str_replace (x # xs) new a @ new @ str_replace (x # xs) new b"
proof (induction a rule: length_induct)
  case (1 a)
  show ?case
  proof (cases a)
    case Nil
    then show ?thesis using str_replace_hit[of x xs new b] by simp
  next
    case (Cons c cs)
    show ?thesis
    proof (cases "prefix (x # xs) a")
      case True
      then obtain a' where a': "a = (x # xs) @ a'" by (auto simp: prefix_def)
      then have "length a' < length a" by simp
      with 1 have ih: "str_replace (x # xs) new (a' @ (x # xs) @ b)
         = str_replace (x # xs) new a' @ new @ str_replace (x # xs) new b" by blast
      have "str_replace (x # xs) new (a @ (x # xs) @ b)
            = new @ str_replace (x # xs) new (a' @ (x # xs) @ b)"
        using str_replace_hit[of x xs new "a' @ (x # xs) @ b"] a' by simp
      moreover have "str_replace (x # xs) new a = new @ str_replace (x # xs) new a'"
        using str_replace_hit[of x xs new a'] a' by simp
      ultimately show ?thesis using ih by simp
    next
      case False
      have np: "\<not> prefix (x # xs) (c # (cs @ (x # xs) @ b))"
        using prefix_overlap_head[of x xs a b] False x Cons by auto
      have "length cs < length a" using Cons by simp
      with 1 have ih: "str_replace (x # xs) new (cs @ (x # xs) @ b)
         = str_replace (x # xs) new cs @ new @ str_replace (x # xs) new b" by blast
      have "str_replace (x # xs) new (a @ (x # xs) @ b)
            = c # str_replace (x # xs) new (cs @ (x # xs) @ b)"
        using str_replace_skip[OF np] Cons by simp
      moreover have "str_replace (x # xs) new a = c # str_replace (x # xs) new cs"
        using str_replace_skip[of x xs c cs new] False Cons by simp
      ultimately show ?thesis using ih by simp
    qed
  qed
qed

section \<open>The command executor\<close>

lemma run_command_tolerant:
  "run_command w command False tr =
     (Inr (strip (stdout (shell w tr command))), tr @ [Run command False])"
  by (simp add: run_command_def subprocess_run_def)

lemma run_command_strict:
  "run_command w command True tr =
     (if returncode (shell w tr command) = 0
      then Inr (strip (stdout (shell w tr command)))
      else Inl (CalledProcessError (returncode (shell w tr command))
                  (stderr (shell w tr command))),
      tr @ [Run command True])"
  by (simp add: run_command_def subprocess_run_def)

text \<open>
  C2. The claim: \<^verbatim>\<open>run_command\<close> returns the trimmed standard output when the command
  succeeds, the standard error text when it fails and failures are tolerated
  (\<^verbatim>\<open>check=False\<close>), and raises when it fails and \<^verbatim>\<open>check=True\<close>. The code: with
  \<^verbatim>\<open>check=False\<close>, \<^verbatim>\<open>subprocess.run\<close> never raises \<^verbatim>\<open>CalledProcessError\<close>, so the
  \<^verbatim>\<open>except\<close> branch that returns \<^verbatim>\<open>e.stderr.strip()\<close> is never reached and a tolerated
  failure returns the trimmed standard output: here the empty text, not the message on
  standard error.
\<close>

theorem run_command_tolerated_failure_returns_stdout:
  "run_command failing_world ''kubectl describe pod x'' False []
     = (Inr '''', [Run ''kubectl describe pod x'' False])
   \<and> stderr (shell failing_world [] ''kubectl describe pod x'') = ''Error from server (NotFound)''
   \<and> returncode (shell failing_world [] ''kubectl describe pod x'') = 1"
  by (simp add: run_command_def subprocess_run_def failing_world_def strip_def)

section \<open>The model client\<close>

text \<open>
  C6. The claim: \<^verbatim>\<open>call_llm\<close> never raises; a transport failure, a non-2xx status or a
  malformed response body gives an error string. The code: a 200 response whose body is
  the JSON object \<^verbatim>\<open>{}\<close> has no key \<^verbatim>\<open>choices\<close>, \<^verbatim>\<open>response_data["choices"]\<close> raises
  \<^verbatim>\<open>KeyError\<close>, and the \<^verbatim>\<open>except\<close> clause catches only \<^verbatim>\<open>RequestException\<close>.
\<close>

theorem call_llm_raises_on_missing_choices:
  "call_llm failing_world ''hello'' 4096 [] = (Inl KeyError, [Post ''hello'' 4096])"
  by (simp add: call_llm_def failing_world_def response_content_def bind_err_def)

section \<open>Prompt assembly\<close>

text \<open>
  C4. For the context package \<^verbatim>\<open>{"kubectl_get_pod_output": v}\<close> and a template whose only
  placeholder is \<^verbatim>\<open>{kubectl_get_pod_output}\<close> (no other brace before or after it), the
  assembled prompt is the template with the placeholder replaced by \<open>v\<close>: the value is
  kept as it is, whatever it contains, and nothing is stripped.
\<close>

theorem single_substitution_mode:
  assumes "CHR ''{'' \<notin> set pre" and "CHR ''{'' \<notin> set post"
  shows "reason_llm_prompt [(''kubectl_get_pod_output'', v)]
           (pre @ ''{kubectl_get_pod_output}'' @ post) = pre @ v @ post"
proof -
  have "str_replace ''{kubectl_get_pod_output}'' v (pre @ ''{kubectl_get_pod_output}'' @ post)
        = str_replace ''{kubectl_get_pod_output}'' v pre @ v
          @ str_replace ''{kubectl_get_pod_output}'' v post"
    by (rule str_replace_unbordered) simp
  moreover have "str_replace ''{kubectl_get_pod_output}'' v pre = pre"
    using assms(1) by (rule str_replace_absent)
  moreover have "str_replace ''{kubectl_get_pod_output}'' v post = post"
    using assms(2) by (rule str_replace_absent)
  ultimately show ?thesis by (simp add: reason_llm_prompt_def)
qed

theorem single_substitution_mode_witness:
  "reason_llm_prompt [(''kubectl_get_pod_output'', ''Pending'')] classification_prompt =
     ''\<newline>You are an expert Kubernetes SRE. Classify the failure of the pod below into ONE of these categories:\<newline>'' @
     ''SchedulingFailure, ImagePullFailure, ConfigurationFailure, InitializationFailure, RuntimeCrash, HealthCheckFailure\<newline>'' @
     ''--- POD DATA ---\<newline>Pending\<newline>--- END POD DATA ---\<newline>'' @
     ''Respond with ONLY the category name.\<newline>''"
  using single_substitution_mode
    [of "''\<newline>You are an expert Kubernetes SRE. Classify the failure of the pod below into ONE of these categories:\<newline>'' @
         ''SchedulingFailure, ImagePullFailure, ConfigurationFailure, InitializationFailure, RuntimeCrash, HealthCheckFailure\<newline>'' @
         ''--- POD DATA ---\<newline>''"
        "''\<newline>--- END POD DATA ---\<newline>Respond with ONLY the category name.\<newline>''"
        "''Pending''"]
  by (simp add: classification_prompt_def)

text \<open>
  C9. When the context package holds the key \<^verbatim>\<open>kubectl_get_pod_output\<close> with value \<open>v\<close>,
  alone or with other keys, the assembled prompt is the template with only that
  placeholder replaced: it is the prompt of the one-key package, and in a template with
  one occurrence of the placeholder everything before and after it is kept, other
  placeholders and unfilled blocks included.
\<close>

theorem sentinel_membership_selects_mode:
  assumes "map_of context_package ''kubectl_get_pod_output'' = Some v"
  shows "reason_llm_prompt context_package t = str_replace ''{kubectl_get_pod_output}'' v t
       \<and> reason_llm_prompt context_package t
           = reason_llm_prompt [(''kubectl_get_pod_output'', v)] t
       \<and> (\<not> sublist ''{kubectl_get_pod_output}'' pre
            \<and> \<not> sublist ''{kubectl_get_pod_output}'' post
          \<longrightarrow> reason_llm_prompt context_package (pre @ ''{kubectl_get_pod_output}'' @ post)
                = pre @ v @ post)"
proof -
  have shape: "reason_llm_prompt context_package (pre @ ''{kubectl_get_pod_output}'' @ post)
                = pre @ v @ post"
    if a: "\<not> sublist ''{kubectl_get_pod_output}'' pre"
      and b: "\<not> sublist ''{kubectl_get_pod_output}'' post"
  proof -
    have "str_replace ''{kubectl_get_pod_output}'' v (pre @ ''{kubectl_get_pod_output}'' @ post)
          = str_replace ''{kubectl_get_pod_output}'' v pre @ v
            @ str_replace ''{kubectl_get_pod_output}'' v post"
      by (rule str_replace_unbordered) simp
    moreover have "str_replace ''{kubectl_get_pod_output}'' v pre = pre"
      using a by (rule str_replace_no_occurrence)
    moreover have "str_replace ''{kubectl_get_pod_output}'' v post = post"
      using b by (rule str_replace_no_occurrence)
    ultimately show ?thesis using assms by (simp add: reason_llm_prompt_def)
  qed
  show ?thesis using assms shape by (simp add: reason_llm_prompt_def)
qed

theorem sentinel_membership_selects_mode_witness:
  "reason_llm_prompt
     [(''pod_description'', ''D''), (''kubectl_get_pod_output'', ''Pending'')]
     (''--- POD_DESCRIPTION ---\<newline>{pod_description}\<newline>--- END POD_DESCRIPTION ---\<newline>'' @
      ''--- NODE_DESCRIPTIONS ---\<newline>{node_descriptions}\<newline>--- END NODE_DESCRIPTIONS ---\<newline>'' @
      ''{kubectl_get_pod_output}'' @ ''!'')
   = ''--- POD_DESCRIPTION ---\<newline>{pod_description}\<newline>--- END POD_DESCRIPTION ---\<newline>'' @
     ''--- NODE_DESCRIPTIONS ---\<newline>{node_descriptions}\<newline>--- END NODE_DESCRIPTIONS ---\<newline>'' @
     ''Pending!''"
  using sentinel_membership_selects_mode
    [of "[(''pod_description'', ''D''), (''kubectl_get_pod_output'', ''Pending'')]" "''Pending''"
        _
        "''--- POD_DESCRIPTION ---\<newline>{pod_description}\<newline>--- END POD_DESCRIPTION ---\<newline>'' @
         ''--- NODE_DESCRIPTIONS ---\<newline>{node_descriptions}\<newline>--- END NODE_DESCRIPTIONS ---\<newline>''"
        "''!''"]
  by (simp add: sublist_code(3))

section \<open>The context collector\<close>



section \<open>Resource identification\<close>

lemma first_pod_filter:
  "first_pod pattern ls =
     (case filter (\<lambda>name. prefix pattern name) (map (str_replace ''pod/'' '''') ls) of
        [] \<Rightarrow> None | name # _ \<Rightarrow> Some name)"
  by (induction ls) (auto simp: startswith_def Let_def)

lemma first_pod_matching:
  "first_pod pattern (split_on CHR 0x0A out) =
     (case matching_pods pattern out of [] \<Rightarrow> None | name # _ \<Rightarrow> Some name)"
  by (simp add: first_pod_filter matching_pods_def)

lemma poll_trace_Suc:
  "poll_trace tr (Suc k) = poll_trace tr k @ [Run ''kubectl get pods -o name'' False, Sleep 2]"
proof -
  have "concat (replicate (Suc k) x) = concat (replicate k x) @ x" for x :: "event list"
    by (induction k) auto
  then show ?thesis by (simp add: poll_trace_def del: replicate_Suc replicate.simps)
qed

lemma poll_pods_none:
  "(\<forall>j<n. matching_pods pattern (poll_output w tr (k + j)) = []) \<Longrightarrow>
     poll_pods w pattern n (poll_trace tr k) = (Inr None, poll_trace tr (k + n))"
proof (induction n arbitrary: k)
  case 0
  then show ?case by (simp add: ret_def)
next
  case (Suc n)
  from Suc.prems have h0: "matching_pods pattern (poll_output w tr k) = []"
    by (metis add.right_neutral zero_less_Suc)
  from Suc.prems have "\<forall>j<n. matching_pods pattern (poll_output w tr (Suc k + j)) = []"
    by (metis Suc_less_eq add_Suc_shift)
  then have ih: "poll_pods w pattern n (poll_trace tr (Suc k)) = (Inr None, poll_trace tr (Suc k + n))"
    by (rule Suc.IH)
  show ?case
    using h0 ih
    by (simp add: seq_def run_command_tolerant first_pod_matching sleep_def poll_trace_Suc
        poll_output_def)
qed

lemma poll_pods_found:
  "(\<forall>j<m. matching_pods pattern (poll_output w tr (k + j)) = []) \<Longrightarrow>
   matching_pods pattern (poll_output w tr (k + m)) = name # others \<Longrightarrow>
   m < n \<Longrightarrow>
     poll_pods w pattern n (poll_trace tr k)
       = (Inr (Some name), poll_trace tr (k + m) @ [Run ''kubectl get pods -o name'' False])"
proof (induction m arbitrary: k n)
  case 0
  then obtain n' where n: "n = Suc n'" by (cases n) auto
  from 0 show ?case unfolding n
    by (simp add: seq_def run_command_tolerant first_pod_matching ret_def poll_output_def)
next
  case (Suc m)
  then obtain n' where n: "n = Suc n'" and mn: "m < n'" by (cases n) auto
  from Suc.prems have h0: "matching_pods pattern (poll_output w tr k) = []"
    by (metis add.right_neutral zero_less_Suc)
  from Suc.prems have a: "\<forall>j<m. matching_pods pattern (poll_output w tr (Suc k + j)) = []"
    by (metis Suc_less_eq add_Suc_shift)
  from Suc.prems have b: "matching_pods pattern (poll_output w tr (Suc k + m)) = name # others"
    by simp
  have ih: "poll_pods w pattern n' (poll_trace tr (Suc k))
       = (Inr (Some name), poll_trace tr (Suc k + m) @ [Run ''kubectl get pods -o name'' False])"
    using Suc.IH[OF a b mn] .
  show ?case unfolding n
    using h0 ih
    by (simp add: seq_def run_command_tolerant first_pod_matching sleep_def poll_trace_Suc
        poll_output_def)
qed

text \<open>
  C7. \<^verbatim>\<open>get_pod_name\<close> sleeps, then polls at most five times. When the first four answers
  list no matching pod and the fifth does, it returns the first matching name of the
  fifth answer, after five polls. When none of five answers lists a matching pod it
  returns \<^verbatim>\<open>None\<close> after five polls and five pauses. It never raises.
\<close>

theorem get_pod_name_bounded_polling:
  "((\<forall>k<4. matching_pods pattern (poll_output w tr k) = [])
      \<and> matching_pods pattern (poll_output w tr 4) = name # others
    \<longrightarrow> get_pod_name w pattern tr
          = (Inr (Some name), poll_trace tr 4 @ [Run ''kubectl get pods -o name'' False]))
   \<and> ((\<forall>k<5. matching_pods pattern (poll_output w tr k) = [])
    \<longrightarrow> get_pod_name w pattern tr = (Inr None, poll_trace tr 5))"
proof -
  have t0: "poll_trace tr 0 = tr @ [Sleep 5]" by (simp add: poll_trace_def)
  have g: "get_pod_name w pattern tr = poll_pods w pattern 5 (poll_trace tr 0)"
    by (simp add: get_pod_name_def seq_def sleep_def t0)
  show ?thesis
    using poll_pods_found[of 4 pattern w tr 0 name others 5] poll_pods_none[of 5 pattern w tr 0]
    by (simp add: g)
qed

theorem get_pod_name_bounded_polling_witness:
  "get_pod_name (scripted_world 4) ''high-cpu-app-'' []
     = (Inr (Some ''high-cpu-app-7f9''),
        poll_trace [] 4 @ [Run ''kubectl get pods -o name'' False])
   \<and> get_pod_name (scripted_world 5) ''high-cpu-app-'' [] = (Inr None, poll_trace [] 5)"
proof -
  have a: "\<forall>k\<in>{0..<4}. matching_pods ''high-cpu-app-'' (poll_output (scripted_world 4) [] k) = []"
    by code_simp
  have b: "matching_pods ''high-cpu-app-'' (poll_output (scripted_world 4) [] 4)
             = ''high-cpu-app-7f9'' # []"
    by code_simp
  have c: "\<forall>k\<in>{0..<5}. matching_pods ''high-cpu-app-'' (poll_output (scripted_world 5) [] k) = []"
    by code_simp
  show ?thesis
    using get_pod_name_bounded_polling
            [of "''high-cpu-app-''" "scripted_world 4" "[]" "''high-cpu-app-7f9''" "[]"]
          get_pod_name_bounded_polling
            [of "''high-cpu-app-''" "scripted_world 5" "[]"]
          a b c
    by simp
qed

end
